theory Spec2Isabelle
  imports Complex_Main
begin

section \<open>The SoundManager2 driver for Cycle.js: a shallow embedding\<close>

text \<open>
  The repository holds three variants of the driver: \<^verbatim>\<open>src/index.js\<close> (RxJS, no
  global actions), \<^verbatim>\<open>unnamed/part_000\<close> (xstream, with \<^verbatim>\<open>performGlobalCommand\<close>) and
  \<^verbatim>\<open>unnamed/part_001\<close> (the RxJS build with \<^verbatim>\<open>performGlobalCommand\<close> and a \<^verbatim>\<open>loaded\<close>
  field on events). The functions below take the variant where the three texts differ.
  The compiled copy that follows the tests in \<^verbatim>\<open>src/index.js\<close> is an older build of the
  first variant (no \<^verbatim>\<open>relative\<close>, no branch for a failed creation) and is not modelled.

  The audio engine (SoundManager2) and the stream library are external. The engine is a
  parameter: a record of functions over an engine state \<open>'e\<close>. The output stream is
  the list of events delivered so far together with the terminal error, if any, over
  one subscription. A command is handled to its end before the next one, and a callback
  the engine invokes on its own runs between two commands.
\<close>

subsection \<open>JavaScript values\<close>

datatype jsval =
    JUndefined
  | JNull
  | JBool bool
  | JNum rat
  | JStr string
  | JArr "jsval list"

text \<open>Numbers are exact rationals: NaN, the infinities and rounding are left out.\<close>

fun truthy :: "jsval \<Rightarrow> bool" where
  "truthy JUndefined = False"
| "truthy JNull = False"
| "truthy (JBool b) = b"
| "truthy (JNum n) = (n \<noteq> 0)"
| "truthy (JStr s) = (s \<noteq> [])"
| "truthy (JArr xs) = True"

text \<open>An optional string or number field of a command: \<open>None\<close> is an absent key.\<close>

fun str_val :: "string option \<Rightarrow> jsval" where
  "str_val None = JUndefined"
| "str_val (Some s) = JStr s"

fun num_val :: "rat option \<Rightarrow> jsval" where
  "num_val None = JUndefined"
| "num_val (Some n) = JNum n"

text \<open>A property key: \<open>obj[undefined]\<close> reads the key \<^verbatim>\<open>"undefined"\<close>.\<close>

fun prop_key :: "string option \<Rightarrow> string" where
  "prop_key None = ''undefined''"
| "prop_key (Some s) = s"

text \<open>\<^verbatim>\<open>Array.prototype.indexOf\<close>: the first index of the element, or \<open>-1\<close>.\<close>

fun indexOf :: "'a list \<Rightarrow> 'a \<Rightarrow> int" where
  "indexOf [] x = -1"
| "indexOf (y # ys) x =
     (if y = x then 0 else (let i = indexOf ys x in if i = -1 then -1 else i + 1))"

datatype js_error =
    InvalidCommand   \<comment> \<open>\<^verbatim>\<open>new Error("Sound src must be set")\<close>\<close>
  | SoundNotFound    \<comment> \<open>\<^verbatim>\<open>new Error("Could not find sound")\<close>\<close>
  | TypeError        \<comment> \<open>calling a property that is not a function\<close>

subsection \<open>Commands, sounds and events\<close>

record command =
  c_src :: "string option"
  c_id :: "string option"
  c_action :: "string option"
  c_position :: "rat option"
  c_relative :: "rat option"
  c_progress :: "rat option"
  c_volume :: "rat option"
  c_scope :: jsval

text \<open>
  The properties of a sound handle that the engine owns, with the types SoundManager2
  documents; \<open>None\<close> is \<^verbatim>\<open>null\<close> (position and duration before loading).
\<close>

record sound_props =
  s_id :: string
  s_position :: "rat option"
  s_duration :: "rat option"
  s_muted :: bool
  s_volume :: rat
  s_paused :: bool
  s_playState :: int
  s_readyState :: int
  s_url :: string

text \<open>
  What \<^verbatim>\<open>soundEvent\<close> and \<^verbatim>\<open>soundError\<close> read of their \<^verbatim>\<open>sound\<close> argument. The
  argument is a handle, the literal \<^verbatim>\<open>{scope, id: null, url}\<close> of a failed creation, or
  a member of \<^verbatim>\<open>Object.prototype\<close> found under an inherited key.
\<close>

record sound =
  so_id :: jsval
  so_position :: jsval
  so_duration :: jsval
  so_muted :: jsval
  so_volume :: jsval
  so_paused :: jsval
  so_playState :: jsval
  so_readyState :: jsval
  so_url :: jsval
  so_scope :: jsval

definition handle_view :: "sound_props \<Rightarrow> jsval \<Rightarrow> sound" where
  "handle_view p sc =
     \<lparr> so_id = JStr (s_id p),
       so_position = (case s_position p of None \<Rightarrow> JNull | Some n \<Rightarrow> JNum n),
       so_duration = (case s_duration p of None \<Rightarrow> JNull | Some n \<Rightarrow> JNum n),
       so_muted = JBool (s_muted p),
       so_volume = JNum (s_volume p),
       so_paused = JBool (s_paused p),
       so_playState = JNum (of_int (s_playState p)),
       so_readyState = JNum (of_int (s_readyState p)),
       so_url = JStr (s_url p),
       so_scope = sc \<rparr>"

text \<open>An object of which every property that is read is \<^verbatim>\<open>undefined\<close>.\<close>

definition blank_sound :: sound where
  "blank_sound =
     \<lparr> so_id = JUndefined, so_position = JUndefined, so_duration = JUndefined,
       so_muted = JUndefined, so_volume = JUndefined, so_paused = JUndefined,
       so_playState = JUndefined, so_readyState = JUndefined, so_url = JUndefined,
       so_scope = JUndefined \<rparr>"

record sound_event =
  ev_id :: jsval
  ev_event :: string
  ev_position :: jsval
  ev_duration :: jsval
  ev_muted :: jsval
  ev_volume :: jsval
  ev_paused :: jsval
  ev_playing :: jsval
  ev_loaded :: "jsval option"
  ev_src :: jsval
  ev_scope :: jsval

record error_event =
  err_id :: jsval
  err_scope :: jsval
  err_src :: jsval

text \<open>An event object on the output stream; \<open>SoundError\<close> is the one with \<^verbatim>\<open>error: true\<close>.\<close>

datatype event = SoundEvent sound_event | SoundError error_event

fun event_scope :: "event \<Rightarrow> jsval" where
  "event_scope (SoundEvent e) = ev_scope e"
| "event_scope (SoundError e) = err_scope e"


fun event_kind :: "event \<Rightarrow> string option" where
  "event_kind (SoundEvent e) = Some (ev_event e)"
| "event_kind (SoundError e) = None"

subsection \<open>The engine and the state\<close>

type_synonym href = nat

datatype callback =
    OnLoad | OnFinish | OnPause | OnPlay | OnResume | OnStop | WhilePlaying
  | OnFailure jsval

text \<open>
  A callback the engine invokes: which one, on which handle, and the engine state at that
  moment (the handlers read the handle's properties then).
\<close>

type_synonym 'e firing = "callback \<times> href \<times> 'e"

text \<open>
  The engine. A call returns the callbacks it invoked synchronously, in order, and the
  engine state it leaves. \<open>sm_global\<close> is \<^verbatim>\<open>soundManager[name]\<close> and \<open>snd_member\<close> is
  \<^verbatim>\<open>sound[name]\<close>, both called with no argument: \<open>None\<close> where the property is not a
  function. \<open>snd_props\<close> reads the properties of a handle. The engine neither reads nor
  writes the \<^verbatim>\<open>scope\<close> property the driver attaches to a handle, \<^verbatim>\<open>createSound\<close> invokes
  no callback before it returns, and the engine's own functions throw nothing.

  The last field is of the host, not of the engine: \<open>builtin_call k a\<close> tells whether
  \<^verbatim>\<open>Object.prototype[k][a]()\<close> returns (it throws a TypeError otherwise).
\<close>

record 'e engine =
  sm_createSound :: "jsval \<Rightarrow> 'e \<Rightarrow> href option \<times> 'e"
  sm_pauseAll :: "'e \<Rightarrow> 'e firing list \<times> 'e"
  sm_global :: "string \<Rightarrow> ('e \<Rightarrow> 'e firing list \<times> 'e) option"
  snd_setPosition :: "href \<Rightarrow> jsval \<Rightarrow> 'e \<Rightarrow> 'e firing list \<times> 'e"
  snd_setVolume :: "href \<Rightarrow> jsval \<Rightarrow> 'e \<Rightarrow> 'e firing list \<times> 'e"
  snd_member :: "string \<Rightarrow> (href \<Rightarrow> 'e \<Rightarrow> 'e firing list \<times> 'e) option"
  snd_props :: "'e \<Rightarrow> href \<Rightarrow> sound_props"
  builtin_call :: "string \<Rightarrow> string \<Rightarrow> bool"

datatype engine_call =
    CreateSound jsval
  | PauseAll
  | GlobalAction string
  | SetPosition href jsval
  | SetVolume href jsval
  | SoundAction href string

text \<open>The three texts: \<^verbatim>\<open>src/index.js\<close>, \<^verbatim>\<open>unnamed/part_000\<close>, \<^verbatim>\<open>unnamed/part_001\<close>.\<close>

datatype variant = Index_js | Part_000 | Part_001

text \<open>
  \<open>sounds\<close> is the registry object (its own properties), \<open>scopes\<close> the \<^verbatim>\<open>scope\<close>
  property of each handle, \<open>out\<close> the events delivered on the output stream, \<open>ended\<close>
  its terminal error, \<open>calls\<close> the log of the engine calls made.
\<close>

record 'e state =
  eng :: 'e
  sounds :: "string \<rightharpoonup> href"
  scopes :: "href \<Rightarrow> jsval"
  out :: "event list"
  ended :: "js_error option"
  calls :: "engine_call list"

text \<open>A statement: the exception it throws, if any, and the state it leaves.\<close>

type_synonym 'e stmt = "'e state \<Rightarrow> js_error option \<times> 'e state"

definition andThen :: "'e stmt \<Rightarrow> 'e stmt \<Rightarrow> 'e stmt" where
  "andThen f g st = (case f st of (None, st') \<Rightarrow> g st' | (Some err, st') \<Rightarrow> (Some err, st'))"

definition only_if :: "bool \<Rightarrow> 'e stmt \<Rightarrow> 'e stmt" where
  "only_if b f st = (if b then f st else (None, st))"

definition throw :: "js_error \<Rightarrow> 'e stmt" where
  "throw err st = (Some err, st)"

definition returns :: "('e state \<Rightarrow> 'e state) \<Rightarrow> 'e stmt" where
  "returns f st = (None, f st)"

subsection \<open>The output stream\<close>

text \<open>
  \<^verbatim>\<open>obs.onNext\<close> (\<^verbatim>\<open>obs.next\<close> in xstream) delivers an event unless the stream has ended;
  \<^verbatim>\<open>obs.onError\<close> of RxJS ends it.
\<close>

definition onNext :: "event \<Rightarrow> 'e state \<Rightarrow> 'e state" where
  "onNext ev st = (if ended st = None then st\<lparr>out := out st @ [ev]\<rparr> else st)"

definition onError :: "js_error \<Rightarrow> 'e state \<Rightarrow> 'e state" where
  "onError err st = (if ended st = None then st\<lparr>ended := Some err\<rparr> else st)"

subsection \<open>soundEvent, soundError and the callbacks\<close>

definition sound_event_of :: "variant \<Rightarrow> sound \<Rightarrow> string \<Rightarrow> sound_event" where
  "sound_event_of v sound event =
     \<lparr> ev_id = so_id sound,
       ev_event = event,
       ev_position = so_position sound,
       ev_duration = so_duration sound,
       ev_muted = so_muted sound,
       ev_volume = (if truthy (so_muted sound) then JNum 0 else so_volume sound),
       ev_paused = so_paused sound,
       ev_playing = JBool (\<not> truthy (so_paused sound) \<and> so_playState sound = JNum 1),
       ev_loaded = (if v = Part_001 then Some (JBool (so_readyState sound = JNum 3)) else None),
       ev_src = so_url sound,
       ev_scope = so_scope sound \<rparr>"

definition soundEvent :: "variant \<Rightarrow> sound \<Rightarrow> string \<Rightarrow> 'e state \<Rightarrow> 'e state" where
  "soundEvent v sound event = onNext (SoundEvent (sound_event_of v sound event))"

definition error_event_of :: "sound \<Rightarrow> error_event" where
  "error_event_of sound =
     \<lparr> err_id = so_id sound, err_scope = so_scope sound, err_src = so_url sound \<rparr>"

definition soundError :: "sound \<Rightarrow> 'e state \<Rightarrow> 'e state" where
  "soundError sound = onNext (SoundError (error_event_of sound))"

text \<open>
  The callbacks \<^verbatim>\<open>createSound\<close> registers, run on \<^verbatim>\<open>thisSound\<close>. \<^verbatim>\<open>onfailure\<close> passes
  \<^verbatim>\<open>err\<close> as a fourth argument to \<^verbatim>\<open>soundEvent\<close>, which has three parameters.
\<close>

fun run_callback :: "variant \<Rightarrow> callback \<Rightarrow> sound \<Rightarrow> 'e state \<Rightarrow> 'e state" where
  "run_callback v OnLoad thisSound st =
     (let st1 = (if so_readyState thisSound = JNum 3 then soundEvent v thisSound ''load'' st else st)
      in (if so_readyState thisSound = JNum 2 then soundError thisSound st1 else st1))"
| "run_callback v OnFinish thisSound st = soundEvent v thisSound ''finish'' st"
| "run_callback v OnPause thisSound st = soundEvent v thisSound ''pause'' st"
| "run_callback v OnPlay thisSound st = soundEvent v thisSound ''play'' st"
| "run_callback v OnResume thisSound st = soundEvent v thisSound ''play'' st"
| "run_callback v OnStop thisSound st = soundEvent v thisSound ''stop'' st"
| "run_callback v WhilePlaying thisSound st = soundEvent v thisSound ''playing'' st"
| "run_callback v (OnFailure err) thisSound st = soundEvent v thisSound ''failure'' st"

definition fire :: "variant \<Rightarrow> 'e engine \<Rightarrow> 'e firing \<Rightarrow> 'e state \<Rightarrow> 'e state" where
  "fire v E f st =
     (case f of (cb, h, e) \<Rightarrow> run_callback v cb (handle_view (snd_props E e h) (scopes st h)) st)"

text \<open>
  One call into the engine: the call is logged, the callbacks it invokes run in order,
  and the engine is left in its new state.
\<close>

definition engine_call :: "variant \<Rightarrow> 'e engine \<Rightarrow> engine_call \<Rightarrow>
    ('e \<Rightarrow> 'e firing list \<times> 'e) \<Rightarrow> 'e state \<Rightarrow> 'e state" where
  "engine_call v E c f st =
     (case f (eng st) of (fs, e') \<Rightarrow>
        (fold (fire v E) fs (st\<lparr>calls := calls st @ [c]\<rparr>))\<lparr>eng := e'\<rparr>)"

subsection \<open>createSound\<close>

text \<open>
  \<^verbatim>\<open>createSound\<close> throws when \<^verbatim>\<open>command.src\<close> is falsy. Otherwise it asks the engine for a
  handle: on a handle it sets the \<^verbatim>\<open>scope\<close> property and then registers the handle under
  its \<^verbatim>\<open>id\<close>; on none it reports the literal \<^verbatim>\<open>{scope, id: null, url}\<close> with
  \<^verbatim>\<open>soundError\<close>.
\<close>

definition createSound :: "variant \<Rightarrow> 'e engine \<Rightarrow> command \<Rightarrow> 'e stmt" where
  "createSound v E command st =
     (if \<not> truthy (str_val (c_src command)) then throw InvalidCommand st
      else
        (case sm_createSound E (str_val (c_src command)) (eng st) of (thisSound, e') \<Rightarrow>
           (let st1 = st\<lparr>eng := e', calls := calls st @ [CreateSound (str_val (c_src command))]\<rparr>
            in (case thisSound of
                  Some h \<Rightarrow>
                    (None, st1\<lparr>scopes := (scopes st1)(h := c_scope command),
                                sounds := (sounds st1)(s_id (snd_props E e' h) \<mapsto> h)\<rparr>)
                | None \<Rightarrow>
                    (None, soundError
                       (blank_sound\<lparr>so_scope := c_scope command, so_id := JNull,
                                    so_url := str_val (c_src command)\<rparr>) st1)))))"

subsection \<open>performCommand\<close>

text \<open>
  \<^verbatim>\<open>sounds[id]\<close> on the plain object \<^verbatim>\<open>const sounds = {}\<close>: an own property, else a
  member inherited from \<^verbatim>\<open>Object.prototype\<close>, else \<^verbatim>\<open>undefined\<close>.
\<close>

definition object_prototype_names :: "string list" where
  "object_prototype_names =
     [''constructor'', ''toString'', ''toLocaleString'', ''valueOf'', ''hasOwnProperty'',
      ''isPrototypeOf'', ''propertyIsEnumerable'', ''__proto__'', ''__defineGetter__'',
      ''__defineSetter__'', ''__lookupGetter__'', ''__lookupSetter__'']"

datatype lookup = Own href | Inherited | Absent

definition sounds_lookup :: "(string \<rightharpoonup> href) \<Rightarrow> string \<Rightarrow> lookup" where
  "sounds_lookup reg k =
     (case reg k of
        Some h \<Rightarrow> Own h
      | None \<Rightarrow> if k \<in> set object_prototype_names then Inherited else Absent)"

text \<open>\<^verbatim>\<open>null\<close> converts to the number 0 in \<^verbatim>\<open>+\<close> and \<^verbatim>\<open>*\<close>.\<close>

fun to_number :: "rat option \<Rightarrow> rat" where
  "to_number None = 0"
| "to_number (Some n) = n"

definition setRelativePosition :: "variant \<Rightarrow> 'e engine \<Rightarrow> href \<Rightarrow> rat \<Rightarrow> 'e state \<Rightarrow> 'e state" where
  "setRelativePosition v E h relative st =
     (let newPosition = to_number (s_position (snd_props E (eng st) h)) + relative
      in engine_call v E (SetPosition h (JNum newPosition)) (snd_setPosition E h (JNum newPosition)) st)"

definition is_play_or_resume :: "string \<Rightarrow> bool" where
  "is_play_or_resume action = (indexOf [''play'', ''resume''] action \<noteq> -1)"

text \<open>
  The body of \<^verbatim>\<open>performCommand\<close> once \<^verbatim>\<open>sounds[id]\<close> is a handle: its five
  \<^verbatim>\<open>if\<close> statements in order, then the \<^verbatim>\<open>update\<close> event.
\<close>

definition apply_position :: "variant \<Rightarrow> 'e engine \<Rightarrow> href \<Rightarrow> command \<Rightarrow> 'e stmt" where
  "apply_position v E h command =
     only_if (truthy (num_val (c_position command)))
       (returns (engine_call v E (SetPosition h (num_val (c_position command)))
                   (snd_setPosition E h (num_val (c_position command)))))"

definition apply_relative :: "variant \<Rightarrow> 'e engine \<Rightarrow> href \<Rightarrow> command \<Rightarrow> 'e stmt" where
  "apply_relative v E h command =
     only_if (truthy (num_val (c_relative command)))
       (returns (setRelativePosition v E h (to_number (c_relative command))))"

definition apply_progress :: "variant \<Rightarrow> 'e engine \<Rightarrow> href \<Rightarrow> command \<Rightarrow> 'e stmt" where
  "apply_progress v E h command =
     only_if (truthy (num_val (c_progress command)))
       (returns (\<lambda>st.
          (let p = JNum (to_number (s_duration (snd_props E (eng st) h)) * to_number (c_progress command))
           in engine_call v E (SetPosition h p) (snd_setPosition E h p) st)))"

definition apply_action :: "variant \<Rightarrow> 'e engine \<Rightarrow> href \<Rightarrow> command \<Rightarrow> 'e stmt" where
  "apply_action v E h command =
     only_if (truthy (str_val (c_action command)))
       (andThen
          (only_if (is_play_or_resume (prop_key (c_action command)))
             (returns (engine_call v E PauseAll (sm_pauseAll E))))
          (case snd_member E (prop_key (c_action command)) of
             None \<Rightarrow> throw TypeError
           | Some m \<Rightarrow>
               returns (engine_call v E (SoundAction h (prop_key (c_action command))) (m h))))"

definition apply_volume :: "variant \<Rightarrow> 'e engine \<Rightarrow> href \<Rightarrow> command \<Rightarrow> 'e stmt" where
  "apply_volume v E h command =
     only_if (truthy (num_val (c_volume command)))
       (returns (engine_call v E (SetVolume h (num_val (c_volume command)))
                   (snd_setVolume E h (num_val (c_volume command)))))"

definition emit_update :: "variant \<Rightarrow> 'e engine \<Rightarrow> href \<Rightarrow> 'e stmt" where
  "emit_update v E h =
     returns (\<lambda>st. soundEvent v (handle_view (snd_props E (eng st) h) (scopes st h)) ''update'' st)"

definition update_sound :: "variant \<Rightarrow> 'e engine \<Rightarrow> href \<Rightarrow> command \<Rightarrow> 'e stmt" where
  "update_sound v E h command =
     andThen (apply_position v E h command)
    (andThen (apply_relative v E h command)
    (andThen (apply_progress v E h command)
    (andThen (apply_action v E h command)
    (andThen (apply_volume v E h command)
       (emit_update v E h)))))"

text \<open>
  The same body when \<^verbatim>\<open>sounds[id]\<close> is a member of \<^verbatim>\<open>Object.prototype\<close>, found under
  the key \<open>k\<close>: it has no \<^verbatim>\<open>setPosition\<close> and no \<^verbatim>\<open>setVolume\<close>, and every property
  \<^verbatim>\<open>soundEvent\<close> reads of it is \<^verbatim>\<open>undefined\<close>.
\<close>

definition update_builtin :: "variant \<Rightarrow> 'e engine \<Rightarrow> string \<Rightarrow> command \<Rightarrow> 'e stmt" where
  "update_builtin v E k command =
     andThen (only_if (truthy (num_val (c_position command))) (throw TypeError))
    (andThen (only_if (truthy (num_val (c_relative command))) (throw TypeError))
    (andThen (only_if (truthy (num_val (c_progress command))) (throw TypeError))
    (andThen (only_if (truthy (str_val (c_action command)))
        (andThen (only_if (is_play_or_resume (prop_key (c_action command)))
                    (returns (engine_call v E PauseAll (sm_pauseAll E))))
           (only_if (\<not> builtin_call E k (prop_key (c_action command))) (throw TypeError))))
    (andThen (only_if (truthy (num_val (c_volume command))) (throw TypeError))
       (returns (soundEvent v blank_sound ''update''))))))"

text \<open>
  When nothing is found: \<^verbatim>\<open>return obs.onError(new Error(...))\<close>. The xstream listener of
  \<^verbatim>\<open>part_000\<close> has \<^verbatim>\<open>error\<close> and no \<^verbatim>\<open>onError\<close>, so the call throws a TypeError there.
\<close>

definition performCommand :: "variant \<Rightarrow> 'e engine \<Rightarrow> command \<Rightarrow> 'e stmt" where
  "performCommand v E command st =
     (case sounds_lookup (sounds st) (prop_key (c_id command)) of
        Absent \<Rightarrow> (if v = Part_000 then throw TypeError st else returns (onError SoundNotFound) st)
      | Own h \<Rightarrow> update_sound v E h command st
      | Inherited \<Rightarrow> update_builtin v E (prop_key (c_id command)) command st)"

subsection \<open>The dispatcher\<close>

definition performGlobalCommand :: "variant \<Rightarrow> 'e engine \<Rightarrow> command \<Rightarrow> 'e stmt" where
  "performGlobalCommand v E command =
     (case sm_global E (prop_key (c_action command)) of
        None \<Rightarrow> throw TypeError
      | Some g \<Rightarrow> returns (engine_call v E (GlobalAction (prop_key (c_action command))) g))"

text \<open>
  The handler of one command. \<^verbatim>\<open>src/index.js\<close> has two branches; \<^verbatim>\<open>part_000\<close> and
  \<^verbatim>\<open>part_001\<close> have the global-action branch between them.
\<close>

definition commandExecutor :: "variant \<Rightarrow> 'e engine \<Rightarrow> command \<Rightarrow> 'e stmt" where
  "commandExecutor v E command =
     (case v of
        Index_js \<Rightarrow>
          (if truthy (str_val (c_id command)) then performCommand v E command
           else createSound v E command)
      | _ \<Rightarrow>
          (if truthy (str_val (c_id command)) then performCommand v E command
           else if truthy (str_val (c_action command)) then performGlobalCommand v E command
           else createSound v E command))"

subsection \<open>Scope isolation\<close>

text \<open>
  \<^verbatim>\<open>(cmd.scope || []).concat(scope)\<close> with a string label: an array gets the label
  appended, a non-empty string is concatenated with it, and a truthy value of another
  type has no \<^verbatim>\<open>concat\<close>.
\<close>

fun scope_concat :: "jsval \<Rightarrow> string \<Rightarrow> js_error + jsval" where
  "scope_concat (JArr xs) l = Inr (JArr (xs @ [JStr l]))"
| "scope_concat (JStr s) l = (if s = [] then Inr (JArr [JStr l]) else Inr (JStr (s @ l)))"
| "scope_concat x l = (if truthy x then Inl TypeError else Inr (JArr [JStr l]))"

definition scoped :: "string \<Rightarrow> command \<Rightarrow> js_error + command" where
  "scoped l cmd =
     (case scope_concat (c_scope cmd) l of
        Inl err \<Rightarrow> Inl err
      | Inr sc \<Rightarrow> Inr (cmd\<lparr>c_scope := sc\<rparr>))"

text \<open>
  A stream is the list of the values it has emitted and the error that ended it, if
  any. \<^verbatim>\<open>map\<close> ends the stream with the exception its function throws.
\<close>

type_synonym 'a stream = "'a list \<times> js_error option"

fun map_stream :: "('a \<Rightarrow> js_error + 'b) \<Rightarrow> 'a list \<Rightarrow> 'b stream" where
  "map_stream f [] = ([], None)"
| "map_stream f (x # xs) =
     (case f x of
        Inl err \<Rightarrow> ([], Some err)
      | Inr y \<Rightarrow> (case map_stream f xs of (ys, r) \<Rightarrow> (y # ys, r)))"

definition isolateSink :: "command stream \<Rightarrow> string \<Rightarrow> command stream" where
  "isolateSink sink l =
     (case map_stream (scoped l) (fst sink) of
        (ys, Some err) \<Rightarrow> (ys, Some err)
      | (ys, None) \<Rightarrow> (ys, snd sink))"

text \<open>\<^verbatim>\<open>Array.isArray\<close>, and the elements of an array (none for another value).\<close>

fun isArray :: "jsval \<Rightarrow> bool" where
  "isArray (JArr xs) = True"
| "isArray x = False"

fun elements :: "jsval \<Rightarrow> jsval list" where
  "elements (JArr xs) = xs"
| "elements x = []"

text \<open>The filter of \<^verbatim>\<open>isolateSource\<close>; \<^verbatim>\<open>indexOf\<close> is not reached for a non-array.\<close>

definition in_scope :: "string \<Rightarrow> event \<Rightarrow> bool" where
  "in_scope l evt =
     (isArray (event_scope evt) \<and> indexOf (elements (event_scope evt)) (JStr l) \<noteq> -1)"

definition isolateSource :: "event stream \<Rightarrow> string \<Rightarrow> event stream" where
  "isolateSource source l = (filter (in_scope l) (fst source), snd source)"

text \<open>
  Nested isolation: \<^verbatim>\<open>isolateSource\<close> and \<^verbatim>\<open>isolateSink\<close> are attached to the stream
  \<^verbatim>\<open>isolateSource\<close> returns, so a source isolated to one label can be isolated to the next.
\<close>

definition isolate_all :: "event stream \<Rightarrow> string list \<Rightarrow> event stream" where
  "isolate_all source ls = fold (\<lambda>l s. isolateSource s l) ls source"

subsection \<open>Runs\<close>

text \<open>
  What the driver handles: a command of the input stream, or a callback the engine
  invokes on its own, between two commands.
\<close>

datatype 'e input = Command command | Callback "'e firing"

fun handle_input :: "variant \<Rightarrow> 'e engine \<Rightarrow> 'e input \<Rightarrow> 'e stmt" where
  "handle_input v E (Command c) st = commandExecutor v E c st"
| "handle_input v E (Callback f) st = (None, fire v E f (st\<lparr>eng := snd (snd f)\<rparr>))"

fun run :: "variant \<Rightarrow> 'e engine \<Rightarrow> 'e input list \<Rightarrow> 'e stmt" where
  "run v E [] st = (None, st)"
| "run v E (i # is) st =
     (case handle_input v E i st of
        (None, st') \<Rightarrow> run v E is st'
      | (Some err, st') \<Rightarrow> (Some err, st'))"

subsection \<open>What a statement delivers\<close>

text \<open>The commands for which \<open>commandExecutor\<close> reaches \<^verbatim>\<open>createSound\<close>.\<close>

definition creation_path :: "variant \<Rightarrow> command \<Rightarrow> bool" where
  "creation_path v command =
     (\<not> truthy (str_val (c_id command)) \<and>
      (v = Index_js \<or> \<not> truthy (str_val (c_action command))))"

text \<open>
  The events a callback delivers on a live stream, as a list: what \<open>run_callback\<close>
  appends to \<open>out\<close> (lemma \<open>run_callback_live\<close>).
\<close>

fun callback_events :: "variant \<Rightarrow> callback \<Rightarrow> sound \<Rightarrow> event list" where
  "callback_events v OnLoad s =
     (if so_readyState s = JNum 3 then [SoundEvent (sound_event_of v s ''load'')] else []) @
     (if so_readyState s = JNum 2 then [SoundError (error_event_of s)] else [])"
| "callback_events v OnFinish s = [SoundEvent (sound_event_of v s ''finish'')]"
| "callback_events v OnPause s = [SoundEvent (sound_event_of v s ''pause'')]"
| "callback_events v OnPlay s = [SoundEvent (sound_event_of v s ''play'')]"
| "callback_events v OnResume s = [SoundEvent (sound_event_of v s ''play'')]"
| "callback_events v OnStop s = [SoundEvent (sound_event_of v s ''stop'')]"
| "callback_events v WhilePlaying s = [SoundEvent (sound_event_of v s ''playing'')]"
| "callback_events v (OnFailure err) s = [SoundEvent (sound_event_of v s ''failure'')]"

definition firing_events :: "variant \<Rightarrow> 'e engine \<Rightarrow> (href \<Rightarrow> jsval) \<Rightarrow> 'e firing \<Rightarrow> event list" where
  "firing_events v E sc f =
     (case f of (cb, h, e) \<Rightarrow> callback_events v cb (handle_view (snd_props E e h) (sc h)))"

definition firings_events :: "variant \<Rightarrow> 'e engine \<Rightarrow> (href \<Rightarrow> jsval) \<Rightarrow> 'e firing list \<Rightarrow> event list" where
  "firings_events v E sc fs = concat (map (firing_events v E sc) fs)"

text \<open>The events a statement delivers: what it appends to \<open>out\<close>.\<close>

definition delivered :: "'e stmt \<Rightarrow> 'e state \<Rightarrow> event list" where
  "delivered b st = drop (length (out st)) (out (snd (b st)))"

text \<open>The events of kind \<^verbatim>\<open>update\<close> in a list of events.\<close>

definition updates :: "event list \<Rightarrow> event list" where
  "updates evs = filter (\<lambda>ev. event_kind ev = Some ''update'') evs"

text \<open>The three seek statements of \<^verbatim>\<open>performCommand\<close>, which precede the action.\<close>

definition seek_statements :: "variant \<Rightarrow> 'e engine \<Rightarrow> href \<Rightarrow> command \<Rightarrow> 'e stmt" where
  "seek_statements v E h command =
     andThen (apply_position v E h command)
       (andThen (apply_relative v E h command) (apply_progress v E h command))"

text \<open>
  A statement that throws nothing, leaves the engine in \<open>e'\<close>, logs the calls \<open>cs\<close>
  and delivers no \<^verbatim>\<open>update\<close> event. (Used in the proofs about the update path.)
\<close>

definition steps :: "'e stmt \<Rightarrow> 'e state \<Rightarrow> engine_call list \<Rightarrow> 'e \<Rightarrow> bool" where
  "steps b st cs e' =
     (fst (b st) = None \<and> eng (snd (b st)) = e' \<and> calls (snd (b st)) = calls st @ cs \<and>
      sounds (snd (b st)) = sounds st \<and> scopes (snd (b st)) = scopes st \<and>
      ended (snd (b st)) = ended st \<and>
      (\<exists>evs. out (snd (b st)) = out st @ evs \<and> updates evs = []))"

subsection \<open>The update path in the words of the specification\<close>


subsection \<open>A small engine, for concrete runs\<close>

text \<open>The state of a driver that has handled nothing yet.\<close>

definition init :: "'e \<Rightarrow> 'e state" where
  "init e = \<lparr> eng = e, sounds = Map.empty, scopes = (\<lambda>h. JUndefined), out = [],
              ended = None, calls = [] \<rparr>"

text \<open>The empty command: the concrete commands set the keys they carry.\<close>

definition no_command :: command where
  "no_command =
     \<lparr> c_src = None, c_id = None, c_action = None, c_position = None, c_relative = None,
       c_progress = None, c_volume = None, c_scope = JUndefined \<rparr>"

text \<open>
  An engine in the manner of SoundManager2, used where a statement is evaluated on a
  concrete input. Its state is the list of its sounds; a handle is an index into it. It
  names its sounds \<^verbatim>\<open>sound0\<close>, \<^verbatim>\<open>sound1\<close>, \<^verbatim>\<open>sound2\<close> and refuses a fourth one.
  A sound starts loading when it is created; \<^verbatim>\<open>play\<close> resumes a paused sound and starts
  a stopped one; \<^verbatim>\<open>pauseAll\<close> pauses every sound that plays.
\<close>

type_synonym demo = "sound_props list"

definition demo_ids :: "string list" where
  "demo_ids = [''sound0'', ''sound1'', ''sound2'']"

definition demo_new :: "string \<Rightarrow> jsval \<Rightarrow> sound_props" where
  "demo_new i url =
     \<lparr> s_id = i, s_position = None, s_duration = None, s_muted = False, s_volume = 100,
       s_paused = False, s_playState = 0, s_readyState = 1,
       s_url = (case url of JStr s \<Rightarrow> s | _ \<Rightarrow> []) \<rparr>"

definition demo_createSound :: "jsval \<Rightarrow> demo \<Rightarrow> href option \<times> demo" where
  "demo_createSound url e =
     (if length e < length demo_ids
      then (Some (length e), e @ [demo_new (demo_ids ! length e) url])
      else (None, e))"

definition demo_props :: "demo \<Rightarrow> href \<Rightarrow> sound_props" where
  "demo_props e h = (if h < length e then e ! h else demo_new [] JUndefined)"

definition demo_set :: "href \<Rightarrow> (sound_props \<Rightarrow> sound_props) \<Rightarrow> demo \<Rightarrow> demo" where
  "demo_set h f e = (if h < length e then e[h := f (e ! h)] else e)"

definition demo_setPosition :: "href \<Rightarrow> jsval \<Rightarrow> demo \<Rightarrow> demo firing list \<times> demo" where
  "demo_setPosition h x e =
     ([], demo_set h (\<lambda>p. case x of JNum n \<Rightarrow> p\<lparr>s_position := Some n\<rparr> | _ \<Rightarrow> p) e)"

definition demo_setVolume :: "href \<Rightarrow> jsval \<Rightarrow> demo \<Rightarrow> demo firing list \<times> demo" where
  "demo_setVolume h x e =
     ([], demo_set h (\<lambda>p. case x of JNum n \<Rightarrow> p\<lparr>s_volume := n\<rparr> | _ \<Rightarrow> p) e)"

definition demo_play :: "href \<Rightarrow> demo \<Rightarrow> demo firing list \<times> demo" where
  "demo_play h e =
     (if s_paused (demo_props e h)
      then (let e' = demo_set h (\<lambda>p. p\<lparr>s_paused := False\<rparr>) e in ([(OnResume, h, e')], e'))
      else if s_playState (demo_props e h) \<noteq> 1
      then (let e' = demo_set h (\<lambda>p. p\<lparr>s_playState := 1\<rparr>) e in ([(OnPlay, h, e')], e'))
      else ([], e))"

definition demo_pause :: "href \<Rightarrow> demo \<Rightarrow> demo firing list \<times> demo" where
  "demo_pause h e =
     (if s_playState (demo_props e h) = 1 \<and> \<not> s_paused (demo_props e h)
      then (let e' = demo_set h (\<lambda>p. p\<lparr>s_paused := True\<rparr>) e in ([(OnPause, h, e')], e'))
      else ([], e))"

definition demo_resume :: "href \<Rightarrow> demo \<Rightarrow> demo firing list \<times> demo" where
  "demo_resume h e =
     (if s_paused (demo_props e h)
      then (let e' = demo_set h (\<lambda>p. p\<lparr>s_paused := False\<rparr>) e in ([(OnResume, h, e')], e'))
      else ([], e))"

definition demo_stop :: "href \<Rightarrow> demo \<Rightarrow> demo firing list \<times> demo" where
  "demo_stop h e =
     (if s_playState (demo_props e h) = 1
      then (let e' = demo_set h (\<lambda>p. p\<lparr>s_playState := 0, s_paused := False\<rparr>) e
            in ([(OnStop, h, e')], e'))
      else ([], e))"

fun demo_each :: "(href \<Rightarrow> demo \<Rightarrow> demo firing list \<times> demo) \<Rightarrow> href list \<Rightarrow> demo \<Rightarrow>
    demo firing list \<times> demo" where
  "demo_each f [] e = ([], e)"
| "demo_each f (h # hs) e =
     (case f h e of (fs, e') \<Rightarrow> (case demo_each f hs e' of (gs, e'') \<Rightarrow> (fs @ gs, e'')))"

definition demo_pauseAll :: "demo \<Rightarrow> demo firing list \<times> demo" where
  "demo_pauseAll e = demo_each demo_pause [0 ..< length e] e"

definition demo_engine :: "demo engine" where
  "demo_engine =
     \<lparr> sm_createSound = demo_createSound,
       sm_pauseAll = demo_pauseAll,
       sm_global = (\<lambda>name.
          if name = ''pauseAll'' then Some demo_pauseAll
          else if name = ''resumeAll'' then Some (\<lambda>e. demo_each demo_resume [0 ..< length e] e)
          else if name = ''stopAll'' then Some (\<lambda>e. demo_each demo_stop [0 ..< length e] e)
          else None),
       snd_setPosition = demo_setPosition,
       snd_setVolume = demo_setVolume,
       snd_member = (\<lambda>name.
          if name = ''play'' then Some demo_play
          else if name = ''pause'' then Some demo_pause
          else if name = ''resume'' then Some demo_resume
          else if name = ''stop'' then Some demo_stop
          else None),
       snd_props = demo_props,
       builtin_call = (\<lambda>k a. a = ''toString'' \<or> a = ''valueOf'') \<rparr>"

text \<open>
  The driver state in which the sounds of the engine are registered under their
  identifiers, with no scope.
\<close>

definition demo_state :: "demo \<Rightarrow> demo state" where
  "demo_state e = (init e)\<lparr>sounds := map_of (zip (map s_id e) [0 ..< length e])\<rparr>"

text \<open>The engine with its three sounds created.\<close>

definition demo_full :: demo where
  "demo_full =
     [demo_new ''sound0'' (JStr ''a.mp3''), demo_new ''sound1'' (JStr ''b.mp3''),
      demo_new ''sound2'' (JStr ''c.mp3'')]"



text \<open>
  The engine holding two loaded sounds, the first one playing; the same after
  \<^verbatim>\<open>pauseAll\<close>; the same after the second sound has then been played; and the command
  that plays the second sound.
\<close>

definition demo_sound :: "string \<Rightarrow> string \<Rightarrow> int \<Rightarrow> bool \<Rightarrow> sound_props" where
  "demo_sound i url ps paused =
     \<lparr> s_id = i, s_position = Some 0, s_duration = Some 2000, s_muted = False,
       s_volume = 100, s_paused = paused, s_playState = ps, s_readyState = 3, s_url = url \<rparr>"

definition demo_two :: demo where
  "demo_two = [demo_sound ''sound0'' ''a.mp3'' 1 False, demo_sound ''sound1'' ''b.mp3'' 0 False]"

definition demo_two_paused :: demo where
  "demo_two_paused = [demo_sound ''sound0'' ''a.mp3'' 1 True, demo_sound ''sound1'' ''b.mp3'' 0 False]"

definition demo_two_switched :: demo where
  "demo_two_switched = [demo_sound ''sound0'' ''a.mp3'' 1 True, demo_sound ''sound1'' ''b.mp3'' 1 False]"

definition play_second :: command where
  "play_second = no_command\<lparr>c_id := Some ''sound1'', c_action := Some ''play''\<rparr>"

text \<open>The engine after its first sound has loaded, with the volume set to 50.\<close>

definition demo_first_loaded :: demo where
  "demo_first_loaded =
     [(demo_new ''sound0'' (JStr ''a.mp3''))
        \<lparr>s_duration := Some 2000, s_volume := 50, s_readyState := 3\<rparr>]"

text \<open>
  A creation command once isolated to the label \<^verbatim>\<open>x\<close>, and the \<^verbatim>\<open>load\<close> event of the
  sound it creates.
\<close>

definition load_x :: command where
  "load_x = no_command\<lparr>c_src := Some ''a.mp3'', c_scope := JArr [JStr ''x'']\<rparr>"

definition loaded_x :: event where
  "loaded_x =
     SoundEvent (sound_event_of Index_js
       (handle_view (snd_props demo_engine demo_first_loaded 0) (JArr [JStr ''x''])) ''load'')"

section \<open>Properties\<close>

lemma indexOf_ge: "- 1 \<le> indexOf xs x"
  by (induction xs) (auto simp: Let_def)

lemma indexOf_mem: "(indexOf xs x \<noteq> - 1) = (x \<in> set xs)"
proof (induction xs)
  case Nil
  show ?case by simp
next
  case (Cons y ys)
  have "indexOf ys x + 1 \<noteq> - 1" using indexOf_ge [of ys x] by arith
  with Cons show ?case by (auto simp: Let_def)
qed

subsection \<open>The output stream and the engine calls\<close>

lemma onNext_fields [simp]:
  "eng (onNext ev st) = eng st"
  "sounds (onNext ev st) = sounds st"
  "scopes (onNext ev st) = scopes st"
  "ended (onNext ev st) = ended st"
  "calls (onNext ev st) = calls st"
  by (simp_all add: onNext_def)

lemma onNext_live: "ended st = None \<Longrightarrow> onNext ev st = st\<lparr>out := out st @ [ev]\<rparr>"
  by (simp add: onNext_def)

lemma onNext_ended: "ended st \<noteq> None \<Longrightarrow> onNext ev st = st"
  by (simp add: onNext_def)

lemma run_callback_live:
  "ended st = None \<Longrightarrow> run_callback v cb s st = st\<lparr>out := out st @ callback_events v cb s\<rparr>"
  by (cases cb) (simp_all add: soundEvent_def soundError_def onNext_def Let_def)

lemma run_callback_ended: "ended st \<noteq> None \<Longrightarrow> run_callback v cb s st = st"
  by (cases cb) (simp_all add: soundEvent_def soundError_def onNext_def Let_def)

lemma fire_live:
  "ended st = None \<Longrightarrow> fire v E f st = st\<lparr>out := out st @ firing_events v E (scopes st) f\<rparr>"
  by (cases f) (simp add: fire_def firing_events_def run_callback_live)

lemma fire_ended: "ended st \<noteq> None \<Longrightarrow> fire v E f st = st"
  by (cases f) (simp add: fire_def run_callback_ended)

lemma fold_fire_live:
  "ended st = None \<Longrightarrow>
   fold (fire v E) fs st = st\<lparr>out := out st @ firings_events v E (scopes st) fs\<rparr>"
proof (induction fs arbitrary: st)
  case Nil
  then show ?case by (simp add: firings_events_def)
next
  case (Cons f fs)
  have live: "ended (fire v E f st) = None" using Cons.prems by (simp add: fire_live)
  show ?case
    using Cons.prems Cons.IH [OF live]
    by (simp add: fire_live firings_events_def)
qed

lemma fold_fire_ended: "ended st \<noteq> None \<Longrightarrow> fold (fire v E) fs st = st"
  by (induction fs arbitrary: st) (simp_all add: fire_ended)

lemma engine_call_live:
  "ended st = None \<Longrightarrow> f (eng st) = (fs, e') \<Longrightarrow>
   engine_call v E c f st =
     st\<lparr>eng := e', out := out st @ firings_events v E (scopes st) fs, calls := calls st @ [c]\<rparr>"
  by (simp add: engine_call_def fold_fire_live)

lemma engine_call_ended:
  "ended st \<noteq> None \<Longrightarrow>
   engine_call v E c f st = st\<lparr>eng := snd (f (eng st)), calls := calls st @ [c]\<rparr>"
  by (simp add: engine_call_def fold_fire_ended split: prod.splits)

lemma run_callback_fields [simp]:
  "eng (run_callback v cb s st) = eng st"
  "sounds (run_callback v cb s st) = sounds st"
  "scopes (run_callback v cb s st) = scopes st"
  "ended (run_callback v cb s st) = ended st"
  "calls (run_callback v cb s st) = calls st"
  by (cases cb; simp add: soundEvent_def soundError_def Let_def)+

lemma fire_fields [simp]:
  "eng (fire v E f st) = eng st"
  "sounds (fire v E f st) = sounds st"
  "scopes (fire v E f st) = scopes st"
  "ended (fire v E f st) = ended st"
  "calls (fire v E f st) = calls st"
  by (cases f; simp add: fire_def)+

lemma fold_fire_fields [simp]:
  "eng (fold (fire v E) fs st) = eng st"
  "sounds (fold (fire v E) fs st) = sounds st"
  "scopes (fold (fire v E) fs st) = scopes st"
  "ended (fold (fire v E) fs st) = ended st"
  "calls (fold (fire v E) fs st) = calls st"
  by (induction fs arbitrary: st; simp)+

lemma engine_call_fields [simp]:
  "eng (engine_call v E c f st) = snd (f (eng st))"
  "sounds (engine_call v E c f st) = sounds st"
  "scopes (engine_call v E c f st) = scopes st"
  "ended (engine_call v E c f st) = ended st"
  "calls (engine_call v E c f st) = calls st @ [c]"
  by (simp_all add: engine_call_def split: prod.splits)

subsection \<open>Creation\<close>

lemma commandExecutor_creation:
  "creation_path v command \<Longrightarrow> commandExecutor v E command = createSound v E command"
  by (cases v) (auto simp: creation_path_def commandExecutor_def)

text \<open>
  C7. A command on the creation path whose \<^verbatim>\<open>src\<close> is missing or empty makes the
  dispatcher throw \<open>InvalidCommand\<close>; the state is the one before the call, so nothing
  is delivered on the output stream, the stream is not ended, the registry is unchanged
  and the engine is not called.
\<close>

theorem missing_src_throws_InvalidCommand:
  assumes "creation_path v command"
    and "\<not> truthy (str_val (c_src command))"
  shows "commandExecutor v E command st = (Some InvalidCommand, st)"
  using assms by (simp add: commandExecutor_creation createSound_def throw_def)

theorem missing_src_throws_InvalidCommand_witness:
  "creation_path Index_js (no_command\<lparr>c_src := Some [], c_action := Some ''play''\<rparr>) \<and>
   \<not> truthy (str_val (c_src (no_command\<lparr>c_src := Some [], c_action := Some ''play''\<rparr>))) \<and>
   commandExecutor Index_js demo_engine (no_command\<lparr>c_src := Some [], c_action := Some ''play''\<rparr>) (init [])
     = (Some InvalidCommand, init [])"
  using missing_src_throws_InvalidCommand
    [of Index_js "no_command\<lparr>c_src := Some [], c_action := Some ''play''\<rparr>" demo_engine "init []"]
  by (simp add: creation_path_def no_command_def)

text \<open>
  C8. When the engine returns no handle for a command with a \<^verbatim>\<open>src\<close>, \<^verbatim>\<open>createSound\<close>
  returns without throwing, delivers one error event with \<^verbatim>\<open>id = null\<close>, the command's
  \<^verbatim>\<open>src\<close> and the command's scope, and leaves the registry as it was.
\<close>

theorem failed_creation_emits_error_event:
  assumes "truthy (str_val (c_src command))"
    and "sm_createSound E (str_val (c_src command)) (eng st) = (None, e')"
    and "ended st = None"
  shows "createSound v E command st =
           (None, st\<lparr>eng := e',
                     out := out st @ [SoundError \<lparr> err_id = JNull, err_scope = c_scope command,
                                                  err_src = str_val (c_src command) \<rparr>],
                     calls := calls st @ [CreateSound (str_val (c_src command))]\<rparr>) \<and>
         sounds (snd (createSound v E command st)) = sounds st"
  using assms
  by (simp add: createSound_def soundError_def onNext_def error_event_of_def blank_sound_def)

theorem failed_creation_emits_error_event_witness:
  "createSound Index_js demo_engine (no_command\<lparr>c_src := Some ''d.mp3'', c_scope := JArr [JStr ''x'']\<rparr>)
     (init demo_full) =
   (None, (init demo_full)\<lparr>out := [SoundError \<lparr> err_id = JNull, err_scope = JArr [JStr ''x''],
                                                   err_src = JStr ''d.mp3'' \<rparr>],
                            calls := [CreateSound (JStr ''d.mp3'')]\<rparr>)"
  using failed_creation_emits_error_event
    [of "no_command\<lparr>c_src := Some ''d.mp3'', c_scope := JArr [JStr ''x'']\<rparr>" demo_engine
        "init demo_full" demo_full Index_js]
  by (simp add: no_command_def init_def demo_engine_def demo_createSound_def demo_ids_def
      demo_full_def)

subsection \<open>The failure callback\<close>

text \<open>
  C6. The event delivered when \<^verbatim>\<open>onfailure\<close> fires is the \<^verbatim>\<open>failure\<close> event built from
  the handle's properties alone: \<^verbatim>\<open>soundEvent\<close> has no parameter for the payload, so two
  firings that differ only in the payload leave the same state.
\<close>

theorem onfailure_event_ignores_payload:
  "fire v E (OnFailure err, h, e) st =
     soundEvent v (handle_view (snd_props E e h) (scopes st h)) ''failure'' st \<and>
   fire v E (OnFailure err, h, e) st = fire v E (OnFailure err', h, e) st"
  by (simp add: fire_def)

subsection \<open>Global actions\<close>

text \<open>
  C1, as the code has it. In \<^verbatim>\<open>part_000\<close> and \<^verbatim>\<open>part_001\<close> a command with a non-empty
  \<^verbatim>\<open>action\<close> and no \<^verbatim>\<open>id\<close> is handled by \<^verbatim>\<open>performGlobalCommand\<close>: when the engine has
  a function of that name, it is called, nothing is thrown, \<^verbatim>\<open>createSound\<close> is not called
  and the registry is unchanged. The dispatcher of \<^verbatim>\<open>src/index.js\<close> has no such branch:
  there the command is handled by \<^verbatim>\<open>createSound\<close>.
\<close>

theorem global_action_dispatch:
  assumes "\<not> truthy (str_val (c_id command))"
    and "truthy (str_val (c_action command))"
    and "sm_global E (prop_key (c_action command)) = Some g"
  shows "(v \<noteq> Index_js \<longrightarrow>
            commandExecutor v E command st =
              (None, engine_call v E (GlobalAction (prop_key (c_action command))) g st) \<and>
            sounds (snd (commandExecutor v E command st)) = sounds st \<and>
            calls (snd (commandExecutor v E command st)) =
              calls st @ [GlobalAction (prop_key (c_action command))]) \<and>
         commandExecutor Index_js E command st = createSound Index_js E command st"
  using assms
  by (cases v) (simp_all add: commandExecutor_def performGlobalCommand_def returns_def)

theorem global_action_dispatch_witness:
  "\<not> truthy (str_val (c_id (no_command\<lparr>c_action := Some ''pauseAll''\<rparr>))) \<and>
   truthy (str_val (c_action (no_command\<lparr>c_action := Some ''pauseAll''\<rparr>))) \<and>
   sm_global demo_engine ''pauseAll'' = Some demo_pauseAll \<and>
   commandExecutor Part_000 demo_engine (no_command\<lparr>c_action := Some ''pauseAll''\<rparr>)
       (demo_state demo_two) =
     (None, (demo_state demo_two)
        \<lparr>eng := demo_two_paused,
         out := [SoundEvent (sound_event_of Part_000
                   (handle_view (demo_sound ''sound0'' ''a.mp3'' 1 True) JUndefined) ''pause'')],
         calls := [GlobalAction ''pauseAll'']\<rparr>)"
proof -
  let ?c = "no_command\<lparr>c_action := Some ''pauseAll''\<rparr>"
  have h: "\<not> truthy (str_val (c_id ?c))" "truthy (str_val (c_action ?c))"
    by (simp_all add: no_command_def)
  have g: "sm_global demo_engine (prop_key (c_action ?c)) = Some demo_pauseAll"
    by (simp add: no_command_def demo_engine_def)
  have p: "demo_pauseAll (eng (demo_state demo_two)) = ([(OnPause, 0, demo_two_paused)], demo_two_paused)"
    by (simp add: demo_state_def init_def demo_pauseAll_def demo_two_def demo_two_paused_def
        demo_pause_def demo_props_def demo_set_def demo_sound_def Let_def
        upt_rec [of 0] upt_rec [of 1] upt_rec [of 2])
  have live: "ended (demo_state demo_two) = None" by (simp add: demo_state_def init_def)
  have e: "engine_call Part_000 demo_engine (GlobalAction ''pauseAll'') demo_pauseAll
      (demo_state demo_two) =
    (demo_state demo_two)
        \<lparr>eng := demo_two_paused,
         out := [SoundEvent (sound_event_of Part_000
                   (handle_view (demo_sound ''sound0'' ''a.mp3'' 1 True) JUndefined) ''pause'')],
         calls := [GlobalAction ''pauseAll'']\<rparr>"
    using engine_call_live [of "demo_state demo_two" demo_pauseAll _ _ Part_000 demo_engine
        "GlobalAction ''pauseAll''", OF live p]
    by (simp add: firings_events_def firing_events_def demo_engine_def demo_props_def
        demo_two_paused_def demo_state_def init_def)
  from global_action_dispatch [OF h g, of Part_000 "demo_state demo_two"]
  have "commandExecutor Part_000 demo_engine ?c (demo_state demo_two) =
      (None, engine_call Part_000 demo_engine (GlobalAction ''pauseAll'') demo_pauseAll
         (demo_state demo_two))"
    by (simp add: no_command_def)
  with h g e show ?thesis by (simp add: no_command_def)
qed

text \<open>
  C1 as stated fails on the dispatcher of \<^verbatim>\<open>src/index.js\<close>: the command
  \<^verbatim>\<open>{action: "pauseAll"}\<close> throws \<open>InvalidCommand\<close>, and
  \<^verbatim>\<open>{src: "a.mp3", action: "pauseAll"}\<close> creates a sound.
\<close>

theorem global_action_counterexample:
  "commandExecutor Index_js demo_engine (no_command\<lparr>c_action := Some ''pauseAll''\<rparr>) (init []) =
     (Some InvalidCommand, init []) \<and>
   sounds (snd (commandExecutor Index_js demo_engine
      (no_command\<lparr>c_src := Some ''a.mp3'', c_action := Some ''pauseAll''\<rparr>) (init []))) ''sound0'' = Some 0"
  by (simp add: commandExecutor_def createSound_def throw_def no_command_def init_def
      demo_engine_def demo_createSound_def demo_ids_def demo_props_def demo_new_def)

subsection \<open>Unknown identifiers\<close>

text \<open>
  An \<^verbatim>\<open>id\<close> for which \<^verbatim>\<open>sounds[id]\<close> is \<^verbatim>\<open>undefined\<close>: the RxJS variants end the
  output stream with \<open>SoundNotFound\<close>, deliver nothing and call nothing; the xstream
  variant throws a TypeError, its listener having no \<^verbatim>\<open>onError\<close>.
\<close>

lemma unknown_id_ends_stream:
  assumes "truthy (str_val (c_id command))"
    and "sounds_lookup (sounds st) (prop_key (c_id command)) = Absent"
    and "v \<noteq> Part_000"
  shows "commandExecutor v E command st = (None, onError SoundNotFound st)"
  using assms by (cases v) (simp_all add: commandExecutor_def performCommand_def returns_def)

lemma part_000_unknown_id_throws:
  assumes "truthy (str_val (c_id command))"
    and "sounds_lookup (sounds st) (prop_key (c_id command)) = Absent"
  shows "commandExecutor Part_000 E command st = (Some TypeError, st)"
  using assms by (simp add: commandExecutor_def performCommand_def throw_def)

text \<open>Once the stream has ended, nothing more is delivered on it.\<close>

lemma andThen_silent:
  assumes "\<And>s. ended s \<noteq> None \<Longrightarrow> out (snd (f s)) = out s \<and> ended (snd (f s)) = ended s"
    and "\<And>s. ended s \<noteq> None \<Longrightarrow> out (snd (g s)) = out s \<and> ended (snd (g s)) = ended s"
    and "ended st \<noteq> None"
  shows "out (snd (andThen f g st)) = out st \<and> ended (snd (andThen f g st)) = ended st"
proof (cases "f st")
  case (Pair r st1)
  have 1: "out st1 = out st \<and> ended st1 = ended st" using assms(1) [OF assms(3)] Pair by simp
  then have "ended st1 \<noteq> None" using assms(3) by simp
  from assms(2) [OF this] 1 Pair show ?thesis by (cases r) (simp_all add: andThen_def)
qed

lemma only_if_silent:
  assumes "\<And>s. ended s \<noteq> None \<Longrightarrow> out (snd (f s)) = out s \<and> ended (snd (f s)) = ended s"
    and "ended st \<noteq> None"
  shows "out (snd (only_if c f st)) = out st \<and> ended (snd (only_if c f st)) = ended st"
  using assms by (simp add: only_if_def)

lemma engine_call_silent:
  "ended st \<noteq> None \<Longrightarrow>
   out (snd (returns (engine_call v E c f) st)) = out st \<and>
   ended (snd (returns (engine_call v E c f) st)) = ended st"
  by (simp add: returns_def engine_call_ended)

lemma throw_silent:
  "out (snd (throw err st)) = out st \<and> ended (snd (throw err st)) = ended st"
  by (simp add: throw_def)

lemma apply_action_silent:
  "ended st \<noteq> None \<Longrightarrow>
   out (snd (apply_action v E h command st)) = out st \<and>
   ended (snd (apply_action v E h command st)) = ended st"
  unfolding apply_action_def
  by (intro only_if_silent andThen_silent engine_call_silent)
     (simp_all add: throw_def returns_def engine_call_ended split: option.splits)

lemma update_sound_silent:
  "ended st \<noteq> None \<Longrightarrow>
   out (snd (update_sound v E h command st)) = out st \<and>
   ended (snd (update_sound v E h command st)) = ended st"
  unfolding update_sound_def
  by (intro andThen_silent apply_action_silent)
     (simp_all add: apply_position_def apply_relative_def apply_progress_def apply_volume_def
        emit_update_def only_if_def returns_def setRelativePosition_def soundEvent_def Let_def
        engine_call_ended onNext_ended)

lemma update_builtin_silent:
  "ended st \<noteq> None \<Longrightarrow>
   out (snd (update_builtin v E k command st)) = out st \<and>
   ended (snd (update_builtin v E k command st)) = ended st"
  unfolding update_builtin_def
  by (intro andThen_silent only_if_silent engine_call_silent throw_silent)
     (simp_all add: returns_def soundEvent_def onNext_ended)

lemma commandExecutor_silent:
  assumes "ended st \<noteq> None"
  shows "out (snd (commandExecutor v E command st)) = out st \<and>
         ended (snd (commandExecutor v E command st)) = ended st"
proof -
  have p: "out (snd (performCommand v E command st)) = out st \<and>
           ended (snd (performCommand v E command st)) = ended st"
    using assms
    by (auto simp: performCommand_def update_sound_silent update_builtin_silent throw_def
        returns_def onError_def split: lookup.splits)
  have g: "out (snd (performGlobalCommand v E command st)) = out st \<and>
           ended (snd (performGlobalCommand v E command st)) = ended st"
    using assms
    by (simp add: performGlobalCommand_def throw_def returns_def engine_call_ended
        split: option.splits)
  have c: "out (snd (createSound v E command st)) = out st \<and>
           ended (snd (createSound v E command st)) = ended st"
    using assms
    by (simp add: createSound_def throw_def soundError_def onNext_ended Let_def
        split: prod.splits option.splits)
  show ?thesis using p g c by (cases v) (simp_all add: commandExecutor_def)
qed

lemma ended_stream_is_silent:
  "ended st \<noteq> None \<Longrightarrow>
   out (snd (run v E inputs st)) = out st \<and> ended (snd (run v E inputs st)) = ended st"
proof (induction inputs arbitrary: st)
  case Nil
  show ?case by simp
next
  case (Cons i inputs)
  have h: "out (snd (handle_input v E i st)) = out st \<and>
           ended (snd (handle_input v E i st)) = ended st"
  proof (cases i)
    case (Command c)
    then show ?thesis using commandExecutor_silent [OF Cons.prems] by simp
  next
    case (Callback f)
    then show ?thesis using Cons.prems by (simp add: fire_ended)
  qed
  obtain r st1 where s: "handle_input v E i st = (r, st1)" by (cases "handle_input v E i st")
  with h Cons.prems have "ended st1 \<noteq> None" by simp
  from Cons.IH [OF this] h s show ?case by (cases r) simp_all
qed

text \<open>
  C2 at the identifier \<^verbatim>\<open>"toString"\<close>, which no sound has: \<^verbatim>\<open>sounds["toString"]\<close> is
  the function inherited from \<^verbatim>\<open>Object.prototype\<close>, the test \<^verbatim>\<open>!sound\<close> fails, and the
  dispatcher delivers an \<^verbatim>\<open>update\<close> event of undefined properties on a stream that goes
  on.
\<close>

theorem inherited_key_is_not_reported_missing:
  "commandExecutor Index_js E (no_command\<lparr>c_id := Some ''toString''\<rparr>) (init e) =
     (None, (init e)\<lparr>out :=
        [SoundEvent \<lparr> ev_id = JUndefined, ev_event = ''update'', ev_position = JUndefined,
           ev_duration = JUndefined, ev_muted = JUndefined, ev_volume = JUndefined,
           ev_paused = JUndefined, ev_playing = JBool False, ev_loaded = None,
           ev_src = JUndefined, ev_scope = JUndefined \<rparr>]\<rparr>)"
  by (simp add: commandExecutor_def performCommand_def sounds_lookup_def object_prototype_names_def
      update_builtin_def andThen_def only_if_def returns_def no_command_def init_def
      soundEvent_def sound_event_of_def blank_sound_def onNext_def)

subsection \<open>The update path\<close>

lemma updates_Nil [simp]: "updates [] = []"
  by (simp add: updates_def)

lemma callback_events_updates [simp]: "updates (callback_events v cb s) = []"
  by (cases cb) (simp_all add: updates_def sound_event_of_def)

lemma updates_append [simp]: "updates (xs @ ys) = updates xs @ updates ys"
  by (simp add: updates_def)

lemma firings_events_updates [simp]: "updates (firings_events v E sc fs) = []"
proof (induction fs)
  case Nil
  show ?case by (simp add: firings_events_def updates_def)
next
  case (Cons f fs)
  have "updates (firing_events v E sc f) = []"
    by (cases f) (simp add: firing_events_def)
  with Cons show ?case by (simp add: firings_events_def)
qed

lemma engine_call_out:
  "ended st = None \<Longrightarrow>
   out (engine_call v E c f st) = out st @ firings_events v E (scopes st) (fst (f (eng st)))"
  by (cases "f (eng st)") (simp add: engine_call_live)

lemma steps_engine_call:
  "ended st = None \<Longrightarrow> steps (returns (engine_call v E c f)) st [c] (snd (f (eng st)))"
  by (simp add: steps_def returns_def engine_call_out)

lemma steps_skip: "steps (only_if False b) st [] (eng st)"
  by (simp add: steps_def only_if_def)

lemma steps_andThen:
  assumes "steps f st cs e1" and "steps g (snd (f st)) ds e2"
  shows "steps (andThen f g) st (cs @ ds) e2"
proof -
  obtain st1 where f: "f st = (None, st1)" using assms(1) by (cases "f st") (simp add: steps_def)
  have g: "andThen f g st = g st1" by (simp add: andThen_def f)
  from assms f obtain evs fvs where
    "out st1 = out st @ evs" "updates evs = []" "out (snd (g st1)) = out st1 @ fvs" "updates fvs = []"
    by (auto simp: steps_def)
  then have "out (snd (g st1)) = out st @ (evs @ fvs) \<and> updates (evs @ fvs) = []" by simp
  then have "\<exists>evs. out (snd (g st1)) = out st @ evs \<and> updates evs = []" by blast
  then show ?thesis using assms f by (simp add: steps_def g)
qed

lemma steps_when:
  "(c \<Longrightarrow> steps b st cs e') \<Longrightarrow>
   steps (only_if c b) st (if c then cs else []) (if c then e' else eng st)"
  by (cases c) (simp_all add: steps_def only_if_def)

lemma steps_position:
  "ended st = None \<Longrightarrow>
   steps (apply_position v E h command) st
     (if truthy (num_val (c_position command)) then [SetPosition h (num_val (c_position command))] else [])
     (if truthy (num_val (c_position command))
      then snd (snd_setPosition E h (num_val (c_position command)) (eng st)) else eng st)"
  unfolding apply_position_def by (rule steps_when) (rule steps_engine_call)

lemma steps_relative:
  "ended st = None \<Longrightarrow>
   steps (apply_relative v E h command) st
     (if truthy (num_val (c_relative command))
      then [SetPosition h (JNum (to_number (s_position (snd_props E (eng st) h)) + to_number (c_relative command)))]
      else [])
     (if truthy (num_val (c_relative command))
      then snd (snd_setPosition E h
             (JNum (to_number (s_position (snd_props E (eng st) h)) + to_number (c_relative command))) (eng st))
      else eng st)"
  unfolding apply_relative_def
  by (rule steps_when) (simp add: steps_def returns_def setRelativePosition_def engine_call_out Let_def)

lemma steps_progress:
  "ended st = None \<Longrightarrow>
   steps (apply_progress v E h command) st
     (if truthy (num_val (c_progress command))
      then [SetPosition h (JNum (to_number (s_duration (snd_props E (eng st) h)) * to_number (c_progress command)))]
      else [])
     (if truthy (num_val (c_progress command))
      then snd (snd_setPosition E h
             (JNum (to_number (s_duration (snd_props E (eng st) h)) * to_number (c_progress command))) (eng st))
      else eng st)"
  unfolding apply_progress_def
  by (rule steps_when) (simp add: steps_def returns_def engine_call_out Let_def)

lemma steps_volume:
  "ended st = None \<Longrightarrow>
   steps (apply_volume v E h command) st
     (if truthy (num_val (c_volume command)) then [SetVolume h (num_val (c_volume command))] else [])
     (if truthy (num_val (c_volume command))
      then snd (snd_setVolume E h (num_val (c_volume command)) (eng st)) else eng st)"
  unfolding apply_volume_def by (rule steps_when) (rule steps_engine_call)


lemma steps_live: "steps b st cs e' \<Longrightarrow> ended st = None \<Longrightarrow> ended (snd (b st)) = None"
  by (simp add: steps_def)






lemma andThen_returned: "f st = (None, st') \<Longrightarrow> andThen f g st = g st'"
  by (simp add: andThen_def)



subsection \<open>One sound at a time\<close>

lemma update_sound_seek:
  "update_sound v E h command =
     andThen (seek_statements v E h command)
       (andThen (apply_action v E h command)
         (andThen (apply_volume v E h command) (emit_update v E h)))"
  unfolding update_sound_def seek_statements_def
  by (rule ext) (simp add: andThen_def split: prod.splits option.splits)

lemma steps_seek:
  assumes live: "ended st = None"
  shows "\<exists>cs e'. steps (seek_statements v E h command) st cs e'"
proof -
  note s1 = steps_position [OF live, of v E h command]
  have live1: "ended (snd (apply_position v E h command st)) = None" using steps_live [OF s1 live] .
  note s2 = steps_relative [OF live1, of v E h command]
  have live2: "ended (snd (apply_relative v E h command (snd (apply_position v E h command st)))) = None"
    using steps_live [OF s2 live1] .
  note s3 = steps_progress [OF live2, of v E h command]
  show ?thesis
    unfolding seek_statements_def
    using steps_andThen [OF s1 steps_andThen [OF s2 s3]] by blast
qed

lemma apply_action_play:
  assumes live: "ended st = None"
    and a: "c_action command = Some a" "a = ''play'' \<or> a = ''resume''"
    and m: "snd_member E a = Some m"
    and p: "sm_pauseAll E (eng st) = (fsP, eP)"
    and b: "m h eP = (fsB, eB)"
  shows "apply_action v E h command st =
           (None, st\<lparr>eng := eB,
                     out := out st @ firings_events v E (scopes st) fsP @
                            firings_events v E (scopes st) fsB,
                     calls := calls st @ [PauseAll, SoundAction h a]\<rparr>)"
proof -
  have t: "truthy (str_val (c_action command))" "is_play_or_resume a"
    using a by (auto simp: is_play_or_resume_def)
  let ?st1 = "engine_call v E PauseAll (sm_pauseAll E) st"
  have st1: "?st1 = st\<lparr>eng := eP, out := out st @ firings_events v E (scopes st) fsP,
                        calls := calls st @ [PauseAll]\<rparr>"
    using engine_call_live [of st "sm_pauseAll E" fsP eP v E PauseAll] live p by simp
  have live1: "ended ?st1 = None" using live by simp
  have b1: "m h (eng ?st1) = (fsB, eB)" using b by (simp add: p)
  have "apply_action v E h command st =
          (None, engine_call v E (SoundAction h a) (m h) ?st1)"
    using t m a(1) by (simp add: apply_action_def only_if_def andThen_def returns_def)
  also have "engine_call v E (SoundAction h a) (m h) ?st1 =
      ?st1\<lparr>eng := eB, out := out ?st1 @ firings_events v E (scopes ?st1) fsB,
            calls := calls ?st1 @ [SoundAction h a]\<rparr>"
    using engine_call_live [of ?st1 "m h" fsB eB v E "SoundAction h a"] live1 b1 by simp
  finally show ?thesis by (simp add: st1)
qed

lemma firings_events_split:
  "f \<in> set fs \<Longrightarrow> \<exists>xs ys. firings_events v E sc fs = xs @ firing_events v E sc f @ ys"
proof -
  assume "f \<in> set fs"
  then obtain as bs where "fs = as @ f # bs" by (auto simp: in_set_conv_decomp)
  then have "firings_events v E sc fs =
      firings_events v E sc as @ firing_events v E sc f @ firings_events v E sc bs"
    by (simp add: firings_events_def)
  then show ?thesis by blast
qed

text \<open>
  C4. When \<^verbatim>\<open>play\<close> or \<^verbatim>\<open>resume\<close> is dispatched to the sound B, on a stream that has
  not ended, the engine's pause-all is called immediately before B's function, and every
  event of a callback that pause-all invoked is delivered before every event of a callback
  that B's function invoked. So when pause-all invokes \<^verbatim>\<open>onpause\<close> on a sound A (the
  engine's doing, for a playing sound) and B's function invokes \<^verbatim>\<open>onplay\<close> or
  \<^verbatim>\<open>onresume\<close> on B, the \<^verbatim>\<open>pause\<close> event of A precedes the \<^verbatim>\<open>play\<close> event of B.
\<close>

theorem pause_all_precedes_play:
  assumes found: "sounds_lookup (sounds st) (prop_key (c_id command)) = Own hB"
    and live: "ended st = None"
    and a: "c_action command = Some a" "a = ''play'' \<or> a = ''resume''"
    and m: "snd_member E a = Some m"
    and p: "sm_pauseAll E (eng (snd (seek_statements v E hB command st))) = (fsP, eP)"
    and b: "m hB eP = (fsB, eB)"
  shows "fst (performCommand v E command st) = None \<and>
         (\<exists>cs ds. calls (snd (performCommand v E command st)) =
                    calls st @ cs @ [PauseAll, SoundAction hB a] @ ds) \<and>
         (\<exists>pre post. out (snd (performCommand v E command st)) =
                    out st @ pre @ firings_events v E (scopes st) fsP @
                    firings_events v E (scopes st) fsB @ post) \<and>
         ((OnPause, hA, eA) \<in> set fsP \<and> (cb, hB, eB') \<in> set fsB \<and> (cb = OnPlay \<or> cb = OnResume) \<longrightarrow>
          (\<exists>xs ys zs. out (snd (performCommand v E command st)) =
             xs @ [SoundEvent (sound_event_of v (handle_view (snd_props E eA hA) (scopes st hA)) ''pause'')] @
             ys @ [SoundEvent (sound_event_of v (handle_view (snd_props E eB' hB) (scopes st hB)) ''play'')] @
             zs))"
proof -
  let ?seek = "seek_statements v E hB command" and ?act = "apply_action v E hB command"
    and ?vol = "apply_volume v E hB command" and ?emit = "emit_update v E hB"
  let ?P = "firings_events v E (scopes st) fsP" and ?B = "firings_events v E (scopes st) fsB"
  obtain cs e3 where s3: "steps ?seek st cs e3" using steps_seek [OF live] by blast
  obtain st3 where seek: "?seek st = (None, st3)"
    using s3 by (cases "?seek st") (simp add: steps_def)
  from s3 seek obtain evs3 where st3: "ended st3 = None" "scopes st3 = scopes st"
      "calls st3 = calls st @ cs" "out st3 = out st @ evs3"
    using live by (auto simp: steps_def)
  have p3: "sm_pauseAll E (eng st3) = (fsP, eP)" using p by (simp add: seek)
  let ?st4 = "st3\<lparr>eng := eB, out := out st3 @ firings_events v E (scopes st3) fsP @
                firings_events v E (scopes st3) fsB, calls := calls st3 @ [PauseAll, SoundAction hB a]\<rparr>"
  have act: "?act st3 = (None, ?st4)"
    by (rule apply_action_play [OF st3(1) a m p3 b])
  have live4: "ended ?st4 = None" using st3(1) by simp
  note s5 = steps_volume [OF live4, of v E hB command]
  obtain st5 where vol: "?vol ?st4 = (None, st5)"
    using s5 by (cases "?vol ?st4") (simp add: steps_def)
  from s5 vol obtain ds evs5 where st5: "ended st5 = None" "calls st5 = calls ?st4 @ ds"
      "out st5 = out ?st4 @ evs5"
    using live4 unfolding steps_def by auto
  let ?u = "SoundEvent (sound_event_of v (handle_view (snd_props E (eng st5) hB) (scopes st5 hB)) ''update'')"
  have "performCommand v E command st = andThen ?seek (andThen ?act (andThen ?vol ?emit)) st"
    by (simp add: performCommand_def found update_sound_seek)
  also have "\<dots> = andThen ?act (andThen ?vol ?emit) st3"
    using andThen_returned [of ?seek st st3, OF seek] by simp
  also have "\<dots> = andThen ?vol ?emit ?st4"
    using andThen_returned [of ?act st3 ?st4, OF act] by simp
  also have "\<dots> = ?emit st5"
    using andThen_returned [of ?vol ?st4 st5, OF vol] by simp
  also have "\<dots> = (None, st5\<lparr>out := out st5 @ [?u]\<rparr>)"
    by (simp add: emit_update_def returns_def soundEvent_def onNext_live st5(1))
  finally have res: "performCommand v E command st = (None, st5\<lparr>out := out st5 @ [?u]\<rparr>)" .
  have calls: "calls (snd (performCommand v E command st)) =
      calls st @ cs @ [PauseAll, SoundAction hB a] @ ds"
    by (simp add: res st5 st3)
  have outs: "out (snd (performCommand v E command st)) = out st @ evs3 @ ?P @ ?B @ (evs5 @ [?u])"
    by (simp add: res st5 st3)
  have prec: "\<exists>xs ys zs. out (snd (performCommand v E command st)) =
             xs @ [SoundEvent (sound_event_of v (handle_view (snd_props E eA hA) (scopes st hA)) ''pause'')] @
             ys @ [SoundEvent (sound_event_of v (handle_view (snd_props E eB' hB) (scopes st hB)) ''play'')] @
             zs"
    if fa: "(OnPause, hA, eA) \<in> set fsP" and fb: "(cb, hB, eB') \<in> set fsB"
      and cb: "cb = OnPlay \<or> cb = OnResume"
  proof -
    let ?pa = "SoundEvent (sound_event_of v (handle_view (snd_props E eA hA) (scopes st hA)) ''pause'')"
    let ?pb = "SoundEvent (sound_event_of v (handle_view (snd_props E eB' hB) (scopes st hB)) ''play'')"
    from firings_events_split [OF fa, of v E "scopes st"]
    obtain x1 y1 where P: "?P = x1 @ [?pa] @ y1" by (auto simp: firing_events_def)
    from firings_events_split [OF fb, of v E "scopes st"] cb
    obtain x2 y2 where B: "?B = x2 @ [?pb] @ y2" by (auto simp: firing_events_def)
    have "out (snd (performCommand v E command st)) =
        (out st @ evs3 @ x1) @ [?pa] @ (y1 @ x2) @ [?pb] @ (y2 @ evs5 @ [?u])"
      unfolding outs P B by simp
    then show ?thesis by blast
  qed
  show ?thesis
    using res calls outs prec by (intro conjI impI) (simp, blast, blast, blast)
qed

theorem pause_all_precedes_play_witness:
  "sounds_lookup (sounds (demo_state demo_two)) (prop_key (c_id play_second)) = Own 1 \<and>
   sm_pauseAll demo_engine (eng (snd (seek_statements Index_js demo_engine 1 play_second
      (demo_state demo_two)))) = ([(OnPause, 0, demo_two_paused)], demo_two_paused) \<and>
   demo_play 1 demo_two_paused = ([(OnPlay, 1, demo_two_switched)], demo_two_switched) \<and>
   (\<exists>xs ys zs. out (snd (performCommand Index_js demo_engine play_second (demo_state demo_two))) =
      xs @ [SoundEvent (sound_event_of Index_js
              (handle_view (demo_sound ''sound0'' ''a.mp3'' 1 True) JUndefined) ''pause'')] @
      ys @ [SoundEvent (sound_event_of Index_js
              (handle_view (demo_sound ''sound1'' ''b.mp3'' 1 False) JUndefined) ''play'')] @
      zs)"
proof -
  have found: "sounds_lookup (sounds (demo_state demo_two)) (prop_key (c_id play_second)) = Own 1"
    by (simp add: sounds_lookup_def demo_state_def demo_two_def demo_sound_def play_second_def
        no_command_def init_def)
  have live: "ended (demo_state demo_two) = None"
    by (simp add: demo_state_def init_def)
  have a: "c_action play_second = Some ''play''" "''play'' = ''play'' \<or> ''play'' = ''resume''"
    by (simp_all add: play_second_def no_command_def)
  have m: "snd_member demo_engine ''play'' = Some demo_play"
    by (simp add: demo_engine_def)
  have seek: "seek_statements Index_js demo_engine 1 play_second (demo_state demo_two) =
      (None, demo_state demo_two)"
    by (simp add: seek_statements_def apply_position_def apply_relative_def apply_progress_def
        andThen_def only_if_def play_second_def no_command_def)
  have p: "sm_pauseAll demo_engine (eng (snd (seek_statements Index_js demo_engine 1 play_second
      (demo_state demo_two)))) = ([(OnPause, 0, demo_two_paused)], demo_two_paused)"
    unfolding seek
    by (simp add: demo_state_def init_def demo_engine_def demo_pauseAll_def demo_two_def
        demo_two_paused_def demo_pause_def demo_props_def demo_set_def demo_sound_def Let_def
        upt_rec [of 0] upt_rec [of 1] upt_rec [of 2])
  have b: "demo_play 1 demo_two_paused = ([(OnPlay, 1, demo_two_switched)], demo_two_switched)"
    by (simp add: demo_play_def demo_two_paused_def demo_two_switched_def demo_props_def
        demo_set_def demo_sound_def Let_def)
  have props: "snd_props demo_engine demo_two_paused 0 = demo_sound ''sound0'' ''a.mp3'' 1 True"
      "snd_props demo_engine demo_two_switched 1 = demo_sound ''sound1'' ''b.mp3'' 1 False"
      "scopes (demo_state demo_two) = (\<lambda>h. JUndefined)"
    by (simp_all add: demo_engine_def demo_props_def demo_two_paused_def demo_two_switched_def
        demo_state_def init_def)
  have fa: "(OnPause, 0, demo_two_paused) \<in> set [(OnPause, 0, demo_two_paused)]"
    and fb: "(OnPlay, 1, demo_two_switched) \<in> set [(OnPlay, 1, demo_two_switched)]"
    by simp_all
  from pause_all_precedes_play [OF found live a m p b, of 0 demo_two_paused OnPlay demo_two_switched]
    fa fb
  have "\<exists>xs ys zs. out (snd (performCommand Index_js demo_engine play_second (demo_state demo_two))) =
      xs @ [SoundEvent (sound_event_of Index_js
              (handle_view (snd_props demo_engine demo_two_paused 0)
                 (scopes (demo_state demo_two) 0)) ''pause'')] @
      ys @ [SoundEvent (sound_event_of Index_js
              (handle_view (snd_props demo_engine demo_two_switched 1)
                 (scopes (demo_state demo_two) 1)) ''play'')] @
      zs"
    by blast
  then have "\<exists>xs ys zs. out (snd (performCommand Index_js demo_engine play_second (demo_state demo_two))) =
      xs @ [SoundEvent (sound_event_of Index_js
              (handle_view (demo_sound ''sound0'' ''a.mp3'' 1 True) JUndefined) ''pause'')] @
      ys @ [SoundEvent (sound_event_of Index_js
              (handle_view (demo_sound ''sound1'' ''b.mp3'' 1 False) JUndefined) ''play'')] @
      zs"
    by (simp only: props)
  with found p b show ?thesis by blast
qed

subsection \<open>Loading\<close>

lemma createSound_created:
  assumes "truthy (str_val (c_src command))"
    and "sm_createSound E (str_val (c_src command)) (eng st) = (Some h, e1)"
  shows "createSound v E command st =
           (None, st\<lparr>eng := e1,
                     sounds := (sounds st)(s_id (snd_props E e1 h) \<mapsto> h),
                     scopes := (scopes st)(h := c_scope command),
                     calls := calls st @ [CreateSound (str_val (c_src command))]\<rparr>)"
  using assms by (simp add: createSound_def)




subsection \<open>Scopes\<close>

lemma in_scope_iff:
  "in_scope l ev = (isArray (event_scope ev) \<and> JStr l \<in> set (elements (event_scope ev)))"
  by (simp add: in_scope_def indexOf_mem)

lemma isolateSource_set:
  "set (fst (isolateSource source l)) = {ev \<in> set (fst source). in_scope l ev}"
  by (simp add: isolateSource_def)

lemma isolate_all_filter:
  "isolate_all source ls = (filter (\<lambda>ev. \<forall>l \<in> set ls. in_scope l ev) (fst source), snd source)"
proof (induction ls arbitrary: source)
  case Nil
  show ?case by (simp add: isolate_all_def)
next
  case (Cons l ls)
  have "isolate_all source (l # ls) = isolate_all (isolateSource source l) ls"
    by (simp add: isolate_all_def)
  also have "\<dots> = (filter (\<lambda>ev. \<forall>l \<in> set ls. in_scope l ev) (filter (in_scope l) (fst source)), snd source)"
    by (simp add: Cons.IH isolateSource_def)
  also have "filter (\<lambda>ev. \<forall>l \<in> set ls. in_scope l ev) (filter (in_scope l) (fst source)) =
      filter (\<lambda>ev. \<forall>k \<in> set (l # ls). in_scope k ev) (fst source)"
    by (induction "fst source") auto
  finally show ?case .
qed

lemma callback_events_scope:
  "ev \<in> set (callback_events v cb s) \<Longrightarrow> event_scope ev = so_scope s"
  by (cases cb) (auto simp: sound_event_of_def error_event_of_def split: if_splits)

lemma firing_events_scope:
  "ev \<in> set (firing_events v E sc (cb, h, e)) \<Longrightarrow> event_scope ev = sc h"
  by (auto simp: firing_events_def handle_view_def dest: callback_events_scope)

lemma scoped_appends:
  "c_scope cmd = JUndefined \<or> isArray (c_scope cmd) \<Longrightarrow>
   scoped l cmd = Inr (cmd\<lparr>c_scope := JArr (elements (c_scope cmd) @ [JStr l])\<rparr>)"
  by (cases "c_scope cmd") (auto simp: scoped_def)

lemma andThen_scopes:
  assumes "\<And>s. scopes (snd (f s)) = scopes s" and "\<And>s. scopes (snd (g s)) = scopes s"
  shows "scopes (snd (andThen f g st)) = scopes st"
proof (cases "f st")
  case (Pair r st1)
  have "scopes st1 = scopes st" using assms(1) [of st] Pair by simp
  then show ?thesis using assms(2) [of st1] Pair by (cases r) (simp_all add: andThen_def)
qed

lemma only_if_scopes:
  assumes "\<And>s. scopes (snd (f s)) = scopes s"
  shows "scopes (snd (only_if c f st)) = scopes st"
  using assms by (simp add: only_if_def)

lemma returns_engine_call_scopes: "scopes (snd (returns (engine_call v E c f) st)) = scopes st"
  by (simp add: returns_def)

lemma throw_scopes: "scopes (snd (throw err st)) = scopes st"
  by (simp add: throw_def)

lemma apply_action_scopes: "scopes (snd (apply_action v E h command st)) = scopes st"
  unfolding apply_action_def
  by (intro only_if_scopes andThen_scopes returns_engine_call_scopes)
     (simp add: throw_def returns_def split: option.splits)

lemma update_sound_scopes: "scopes (snd (update_sound v E h command st)) = scopes st"
  unfolding update_sound_def
  by (intro andThen_scopes apply_action_scopes)
     (simp_all add: apply_position_def apply_relative_def apply_progress_def apply_volume_def
        emit_update_def only_if_def returns_def setRelativePosition_def soundEvent_def Let_def)

lemma update_builtin_scopes: "scopes (snd (update_builtin v E k command st)) = scopes st"
  unfolding update_builtin_def
  by (intro andThen_scopes only_if_scopes returns_engine_call_scopes throw_scopes)
     (simp add: returns_def soundEvent_def)

lemma performCommand_scopes: "scopes (snd (performCommand v E command st)) = scopes st"
  by (simp add: performCommand_def update_sound_scopes update_builtin_scopes throw_def returns_def
      onError_def split: lookup.splits)

lemma performGlobalCommand_scopes: "scopes (snd (performGlobalCommand v E command st)) = scopes st"
  by (simp add: performGlobalCommand_def throw_def returns_def split: option.splits)

lemma commandExecutor_scopes:
  "\<not> creation_path v command \<Longrightarrow> scopes (snd (commandExecutor v E command st)) = scopes st"
  by (cases v)
     (auto simp: creation_path_def commandExecutor_def performCommand_scopes
        performGlobalCommand_scopes)

lemma map_stream_scoped:
  "\<forall>c \<in> set cmds. c_scope c = JUndefined \<or> isArray (c_scope c) \<Longrightarrow>
   map_stream (scoped l) cmds =
     (map (\<lambda>c. c\<lparr>c_scope := JArr (elements (c_scope c) @ [JStr l])\<rparr>) cmds, None)"
  by (induction cmds) (simp_all add: scoped_appends)

lemma isolateSink_appends:
  "\<forall>c \<in> set cmds. c_scope c = JUndefined \<or> isArray (c_scope c) \<Longrightarrow>
   isolateSink (cmds, r) l =
     (map (\<lambda>c. c\<lparr>c_scope := JArr (elements (c_scope c) @ [JStr l])\<rparr>) cmds, r)"
  by (simp add: isolateSink_def map_stream_scoped)

lemma created_then_callback:
  assumes path: "creation_path v command"
    and src: "truthy (str_val (c_src command))"
    and created: "sm_createSound E (str_val (c_src command)) (eng st) = (Some h, e1)"
    and live: "ended st = None"
  shows "delivered (run v E [Command command, Callback (cb, h, e2)]) st =
           callback_events v cb (handle_view (snd_props E e2 h) (c_scope command))"
proof -
  let ?st1 = "st\<lparr>eng := e1, sounds := (sounds st)(s_id (snd_props E e1 h) \<mapsto> h),
                 scopes := (scopes st)(h := c_scope command),
                 calls := calls st @ [CreateSound (str_val (c_src command))]\<rparr>"
  have c: "commandExecutor v E command st = (None, ?st1)"
    by (simp add: commandExecutor_creation [OF path] createSound_created [OF src created])
  have live1: "ended (?st1\<lparr>eng := e2\<rparr>) = None" using live by simp
  have "run v E [Command command, Callback (cb, h, e2)] st =
          (None, fire v E (cb, h, e2) (?st1\<lparr>eng := e2\<rparr>))"
    by (simp add: c)
  also have "fire v E (cb, h, e2) (?st1\<lparr>eng := e2\<rparr>) =
      (?st1\<lparr>eng := e2\<rparr>)\<lparr>out := out (?st1\<lparr>eng := e2\<rparr>) @
         firing_events v E (scopes (?st1\<lparr>eng := e2\<rparr>)) (cb, h, e2)\<rparr>"
    by (rule fire_live [OF live1])
  finally show ?thesis
    by (simp add: delivered_def firing_events_def)
qed

text \<open>
  C9. \<^verbatim>\<open>isolateSink\<close> maps each command, whose scope is absent or an array, to the command
  with the label appended to its scope and its other fields as they were. \<^verbatim>\<open>createSound\<close>
  stores the command's scope on the handle it creates; no other command and no callback
  changes the scope of a handle; every event a callback of the handle delivers, and the
  \<^verbatim>\<open>update\<close> event, carries the scope of the handle; so the events of a callback that
  follows the creation carry the command's scope. A source isolated to a label delivers
  an event only if the event's scope is an array that contains the label, and a source
  isolated to the labels \<open>ls\<close> in turn only if it contains every one of them.
\<close>

theorem scope_propagation:
  "(c_scope cmd = JUndefined \<or> isArray (c_scope cmd) \<longrightarrow>
      scoped l cmd = Inr (cmd\<lparr>c_scope := JArr (elements (c_scope cmd) @ [JStr l])\<rparr>)) \<and>
   ((\<forall>c \<in> set cmds. c_scope c = JUndefined \<or> isArray (c_scope c)) \<longrightarrow>
      isolateSink (cmds, r) l =
        (map (\<lambda>c. c\<lparr>c_scope := JArr (elements (c_scope c) @ [JStr l])\<rparr>) cmds, r)) \<and>
   (truthy (str_val (c_src command)) \<and>
    sm_createSound E (str_val (c_src command)) (eng st) = (Some h, e1) \<longrightarrow>
      scopes (snd (createSound v E command st)) h = c_scope command) \<and>
   (\<not> creation_path v command \<longrightarrow> scopes (snd (commandExecutor v E command st)) = scopes st) \<and>
   scopes (fire v E f st) = scopes st \<and>
   (\<forall>ev \<in> set (firing_events v E sc (cb, h, e)). event_scope ev = sc h) \<and>
   event_scope (SoundEvent (sound_event_of v (handle_view p s) kind)) = s \<and>
   (creation_path v command \<and> truthy (str_val (c_src command)) \<and>
    sm_createSound E (str_val (c_src command)) (eng st) = (Some h, e1) \<and> ended st = None \<longrightarrow>
      (\<forall>ev \<in> set (delivered (run v E [Command command, Callback (cb, h, e2)]) st).
         event_scope ev = c_scope command)) \<and>
   (ev \<in> set (fst (isolateSource source l)) \<longrightarrow>
      ev \<in> set (fst source) \<and> isArray (event_scope ev) \<and> JStr l \<in> set (elements (event_scope ev))) \<and>
   (ev \<in> set (fst (isolate_all source ls)) \<longrightarrow>
      (\<forall>k \<in> set ls. isArray (event_scope ev) \<and> JStr k \<in> set (elements (event_scope ev))))"
proof (intro conjI impI ballI)
  assume "c_scope cmd = JUndefined \<or> isArray (c_scope cmd)"
  then show "scoped l cmd = Inr (cmd\<lparr>c_scope := JArr (elements (c_scope cmd) @ [JStr l])\<rparr>)"
    by (rule scoped_appends)
next
  assume "\<forall>c \<in> set cmds. c_scope c = JUndefined \<or> isArray (c_scope c)"
  then show "isolateSink (cmds, r) l =
      (map (\<lambda>c. c\<lparr>c_scope := JArr (elements (c_scope c) @ [JStr l])\<rparr>) cmds, r)"
    by (rule isolateSink_appends)
next
  assume "truthy (str_val (c_src command)) \<and>
    sm_createSound E (str_val (c_src command)) (eng st) = (Some h, e1)"
  then show "scopes (snd (createSound v E command st)) h = c_scope command"
    by (simp add: createSound_created)
next
  assume "\<not> creation_path v command"
  then show "scopes (snd (commandExecutor v E command st)) = scopes st"
    by (rule commandExecutor_scopes)
next
  show "scopes (fire v E f st) = scopes st" by simp
next
  fix ev assume "ev \<in> set (firing_events v E sc (cb, h, e))"
  then show "event_scope ev = sc h" by (rule firing_events_scope)
next
  show "event_scope (SoundEvent (sound_event_of v (handle_view p s) kind)) = s"
    by (simp add: sound_event_of_def handle_view_def)
next
  fix ev
  assume a: "creation_path v command \<and> truthy (str_val (c_src command)) \<and>
    sm_createSound E (str_val (c_src command)) (eng st) = (Some h, e1) \<and> ended st = None"
    and ev: "ev \<in> set (delivered (run v E [Command command, Callback (cb, h, e2)]) st)"
  from a have "delivered (run v E [Command command, Callback (cb, h, e2)]) st =
      callback_events v cb (handle_view (snd_props E e2 h) (c_scope command))"
    by (intro created_then_callback) simp_all
  with ev show "event_scope ev = c_scope command"
    by (auto simp: handle_view_def dest: callback_events_scope)
next
  assume "ev \<in> set (fst (isolateSource source l))"
  then have "ev \<in> set (fst source) \<and> in_scope l ev" by (simp add: isolateSource_set)
  then show "ev \<in> set (fst source)" "isArray (event_scope ev)"
      "JStr l \<in> set (elements (event_scope ev))"
    by (simp_all add: in_scope_iff)
next
  fix k assume "ev \<in> set (fst (isolate_all source ls))" and "k \<in> set ls"
  then have "in_scope k ev" by (simp add: isolate_all_filter)
  then show "isArray (event_scope ev)" "JStr k \<in> set (elements (event_scope ev))"
    by (simp_all add: in_scope_iff)
qed

theorem scope_propagation_witness:
  "scoped ''x'' (no_command\<lparr>c_src := Some ''a.mp3''\<rparr>) = Inr load_x \<and>
   sm_createSound demo_engine (str_val (c_src load_x)) (eng (init [])) =
     (Some 0, [demo_new ''sound0'' (JStr ''a.mp3'')]) \<and>
   scopes (snd (createSound Index_js demo_engine load_x (init []))) 0 = JArr [JStr ''x''] \<and>
   delivered (run Index_js demo_engine [Command load_x, Callback (OnLoad, 0, demo_first_loaded)])
     (init []) = [loaded_x] \<and>
   event_scope loaded_x = JArr [JStr ''x''] \<and>
   loaded_x \<in> set (fst (isolateSource ([loaded_x], None) ''x'')) \<and>
   JStr ''x'' \<in> set (elements (event_scope loaded_x))"
proof -
  have src: "truthy (str_val (c_src load_x))" and path: "creation_path Index_js load_x"
    by (simp_all add: load_x_def no_command_def creation_path_def)
  have created: "sm_createSound demo_engine (str_val (c_src load_x)) (eng (init [])) =
      (Some 0, [demo_new ''sound0'' (JStr ''a.mp3'')])"
    by (simp add: load_x_def no_command_def init_def demo_engine_def demo_createSound_def
        demo_ids_def)
  have live: "ended (init ([] :: demo)) = None" by (simp add: init_def)
  have ready: "s_readyState (snd_props demo_engine demo_first_loaded 0) = 3"
    by (simp add: demo_engine_def demo_props_def demo_first_loaded_def demo_new_def)
  have d: "delivered (run Index_js demo_engine [Command load_x, Callback (OnLoad, 0, demo_first_loaded)])
      (init []) = [loaded_x]"
    using created_then_callback [OF path src created live, of OnLoad demo_first_loaded] ready
    by (simp add: loaded_x_def handle_view_def load_x_def no_command_def)
  have sc: "event_scope loaded_x = JArr [JStr ''x'']"
    by (simp add: loaded_x_def sound_event_of_def handle_view_def)
  have mem: "loaded_x \<in> set (fst (isolateSource ([loaded_x], None) ''x''))"
    by (simp add: isolateSource_def in_scope_def sc)
  note t = scope_propagation [where cmd = "no_command\<lparr>c_src := Some ''a.mp3''\<rparr>" and l = "''x''"
      and command = load_x and E = demo_engine and st = "init []" and h = 0
      and ?e1.0 = "[demo_new ''sound0'' (JStr ''a.mp3'')]" and v = Index_js
      and ev = loaded_x and source = "([loaded_x], None)"]
  have 1: "scoped ''x'' (no_command\<lparr>c_src := Some ''a.mp3''\<rparr>) = Inr load_x"
    using t by (simp add: no_command_def load_x_def)
  have 2: "scopes (snd (createSound Index_js demo_engine load_x (init []))) 0 = JArr [JStr ''x'']"
    using t src created by (simp add: load_x_def no_command_def)
  have 3: "JStr ''x'' \<in> set (elements (event_scope loaded_x))"
    using t mem by blast
  show ?thesis using 1 2 3 created d sc mem by simp
qed




end
